theory Spec2Isabelle
  imports Main "HOL-Library.Word" "HOL-Library.List_Lexorder"
begin

unbundle bit_operations_syntax

section \<open>Data model\<close>

text \<open>
  The wire types of the validator: a point (an outpoint or an inpoint) is a transaction hash
  with a 32-bit index; headers, transactions and blocks are the plain structs of the source.
  A script is kept as its list of operations, an operation being an opcode byte and its data.
\<close>

type_synonym byte = "8 word"
type_synonym data_chunk = "byte list"
type_synonym hash_digest = "byte list"

record point =
  hash :: hash_digest
  index :: "32 word"

type_synonym output_point = point
type_synonym input_point = point

type_synonym opcode = byte

record operation =
  code :: opcode
  data :: data_chunk

type_synonym script_type = "operation list"

record transaction_input_type =
  previous_output :: output_point
  in_script :: script_type
  sequence :: "32 word"

record transaction_output_type =
  out_value :: "64 word"
  out_script :: script_type

record transaction_type =
  tx_version :: "32 word"
  locktime :: "32 word"
  inputs :: "transaction_input_type list"
  outputs :: "transaction_output_type list"

record block_header_type =
  version :: "32 word"
  previous_block_hash :: hash_digest
  merkle :: hash_digest
  timestamp :: "32 word"
  bits :: "32 word"
  nonce :: "32 word"

record block_type =
  header :: block_header_type
  transactions :: "transaction_type list"

section \<open>The chain view of \<open>validate_block_impl\<close>\<close>

text \<open>
  \<open>db_interface\<close> is the persistent store as the validator reads it: block headers by
  height, the height of a block by its hash, transactions by hash (with the height of their
  block) and the spend of an outpoint.
  A lookup that finds nothing is \<open>None\<close> (the source's result object that tests false).
\<close>

record db_interface =
  blocks_get :: "nat \<Rightarrow> block_header_type option"
  blocks_get_hash :: "hash_digest \<Rightarrow> nat option"
  transactions_get :: "hash_digest \<Rightarrow> (transaction_type \<times> nat) option"
  spends_get :: "output_point \<Rightarrow> input_point option"

text \<open>
  The adapter itself: the store it reads (\<open>interface_\<close>; \<open>chain_\<close> in the copy of namespace
  \<open>blockchain\<close>), the height of the candidate block, the fork point and the orphan branch
  with the position of the candidate in it.
\<close>

record 'store validate_block_impl =
  interface :: 'store
  height :: nat
  fork_index :: nat
  orphan_index :: nat
  orphan_chain :: "block_type list"

text \<open>
  \<open>fetch_block\<close>: above the fork point the header comes from the orphan chain, otherwise from
  the block store. The source asserts that the orphan index is in range and that the store
  has the block; where an assertion would fail the model returns \<open>None\<close>.
\<close>

type_synonym chain_view = "db_interface validate_block_impl"

definition fetch_block :: "chain_view \<Rightarrow> nat \<Rightarrow> block_header_type option" where
  "fetch_block v fetch_height =
     (if fetch_height > fork_index v then
        (let fetch_index = fetch_height - fork_index v - 1 in
         if fetch_index \<le> orphan_index v \<and> orphan_index v < length (orphan_chain v)
         then Some (header (orphan_chain v ! fetch_index))
         else None)
      else blocks_get (interface v) fetch_height)"

text \<open>
  \<open>preceding_block_versions\<close>: the loop over \<open>index = 0 ..< size\<close> reads the header at
  \<open>height - index - 1\<close>, clamps its 32-bit version to \<open>max_uint8\<close> and pushes the low byte.
\<close>

definition max_uint8 :: "32 word" where
  "max_uint8 = 255"

fun push_versions :: "chain_view \<Rightarrow> nat list \<Rightarrow> byte list \<Rightarrow> byte list option" where
  "push_versions v [] result = Some result"
| "push_versions v (i # rest) result =
     (case fetch_block v (height v - i - 1) of
        None \<Rightarrow> None
      | Some h \<Rightarrow>
          (let normal = min (version h) max_uint8
           in push_versions v rest (result @ [ucast normal])))"

definition preceding_block_versions :: "chain_view \<Rightarrow> nat \<Rightarrow> byte list option" where
  "preceding_block_versions v maximum =
     (let size = min maximum (height v) in push_versions v [0..<size] [])"

section \<open>Activation context\<close>

datatype script_context =
  bip16_enabled | bip30_enabled | bip34_enabled | bip65_enabled | bip66_enabled

definition version_4 :: byte where "version_4 = 4"
definition version_3 :: byte where "version_3 = 3"
definition version_2 :: byte where "version_2 = 2"
definition version_1 :: byte where "version_1 = 1"

text \<open>The build constants; \<open>testnet\<close> stands for the \<open>ENABLE_TESTNET\<close> build.\<close>

definition sample :: "bool \<Rightarrow> nat" where
  "sample testnet = (if testnet then 100 else 1000)"

definition enforced :: "bool \<Rightarrow> nat" where
  "enforced testnet = (if testnet then 75 else 950)"

definition activated :: "bool \<Rightarrow> nat" where
  "activated testnet = (if testnet then 51 else 750)"

definition bip16_activation_height :: "bool \<Rightarrow> nat" where
  "bip16_activation_height testnet = (if testnet then 514 else 173805)"

definition bip30_exception_height1 :: "bool \<Rightarrow> nat" where
  "bip30_exception_height1 testnet = (if testnet then 0 else 91842)"

definition bip30_exception_height2 :: "bool \<Rightarrow> nat" where
  "bip30_exception_height2 testnet = (if testnet then 0 else 91880)"

definition ge_4 :: "byte \<Rightarrow> bool" where "ge_4 ver = (ver \<ge> version_4)"
definition ge_3 :: "byte \<Rightarrow> bool" where "ge_3 ver = (ver \<ge> version_3)"
definition ge_2 :: "byte \<Rightarrow> bool" where "ge_2 ver = (ver \<ge> version_2)"

definition count_if :: "('a \<Rightarrow> bool) \<Rightarrow> 'a list \<Rightarrow> nat" where
  "count_if p xs = length (filter p xs)"

record block_context =
  minimum_version :: byte
  activations :: "script_context set"

text \<open>
  \<open>initialize_context\<close> from the sampled versions and the height: the minimum version by the
  enforcement threshold, then the five activation flags in the order of the source.
\<close>

definition initialize_context_from :: "bool \<Rightarrow> nat \<Rightarrow> byte list \<Rightarrow> block_context" where
  "initialize_context_from testnet h versions =
     (let count_4 = count_if ge_4 versions;
          count_3 = count_if ge_3 versions;
          count_2 = count_if ge_2 versions;
          enforce = (\<lambda>count. count \<ge> enforced testnet);
          activate = (\<lambda>count. count \<ge> activated testnet);
          a0 = {};
          a1 = (if activate count_4 then insert bip65_enabled a0 else a0);
          a2 = (if activate count_3 then insert bip66_enabled a1 else a1);
          a3 = (if activate count_2 then insert bip34_enabled a2 else a2);
          a4 = (if h \<noteq> bip30_exception_height1 testnet \<and> h \<noteq> bip30_exception_height2 testnet
                then insert bip30_enabled a3 else a3);
          a5 = (if h \<ge> bip16_activation_height testnet then insert bip16_enabled a4 else a4)
      in \<lparr> minimum_version =
             (if enforce count_4 then version_4
              else if enforce count_3 then version_3
              else if enforce count_2 then version_2
              else version_1),
           activations = a5 \<rparr>)"

definition initialize_context :: "bool \<Rightarrow> chain_view \<Rightarrow> block_context option" where
  "initialize_context testnet v =
     (case preceding_block_versions v (sample testnet) of
        None \<Rightarrow> None
      | Some versions \<Rightarrow> Some (initialize_context_from testnet (height v) versions))"


section \<open>Spentness of an output\<close>

text \<open>
  The copy of namespace \<open>chain\<close> (\<open>implementation/validate_block_impl.cpp\<close>): a transaction
  exists on the committed chain if the transaction index has it at a height that is not after
  the fork point; an output is spent there if the spends table has a record for it and the
  spending transaction exists in that sense.
\<close>

definition tx_after_fork :: "nat \<Rightarrow> nat \<Rightarrow> bool" where
  "tx_after_fork tx_height fork = (tx_height > fork)"

definition transaction_exists :: "chain_view \<Rightarrow> hash_digest \<Rightarrow> bool" where
  "transaction_exists v tx_hash =
     (case transactions_get (interface v) tx_hash of
        None \<Rightarrow> False
      | Some result \<Rightarrow> \<not> tx_after_fork (snd result) (fork_index v))"

definition is_output_spent :: "chain_view \<Rightarrow> output_point \<Rightarrow> bool" where
  "is_output_spent v outpoint =
     (case spends_get (interface v) outpoint of
        None \<Rightarrow> False
      | Some result \<Rightarrow> transaction_exists v (hash result))"

text \<open>
  The copy of namespace \<open>blockchain\<close> (\<open>validate_block_impl.cpp\<close>) reads a \<open>simple_chain\<close>.
  Its three queries are declared outside the sources at hand and are taken as they are:
  the hash of the transaction spending an outpoint, the height of a transaction, and whether
  the unspent-output set contains an outpoint. The function computes the three
  \<open>libbtc_method\<close> values, prints them, and returns \<open>fer_method\<close>.
\<close>

record simple_chain =
  get_outpoint_transaction :: "output_point \<Rightarrow> hash_digest option"
  get_transaction_height :: "hash_digest \<Rightarrow> nat option"
  contains_outpoint_in_utxo :: "output_point \<Rightarrow> bool"

type_synonym blockchain_view = "simple_chain validate_block_impl"

definition blockchain_is_output_spent :: "blockchain_view \<Rightarrow> output_point \<Rightarrow> bool" where
  "blockchain_is_output_spent w outpoint =
     (let libbtc_method_1 = get_outpoint_transaction (interface w) outpoint;
          libbtc_method_2 =
            (case libbtc_method_1 of
               None \<Rightarrow> None
             | Some tx_hash \<Rightarrow> get_transaction_height (interface w) tx_hash);
          libbtc_method_3 =
            (case libbtc_method_2 of
               None \<Rightarrow> False
             | Some tx_height \<Rightarrow> tx_height \<le> fork_index w);
          fer_method = (\<not> contains_outpoint_in_utxo (interface w) outpoint)
      in fer_method)"

text \<open>
  What the specification asks of the committed check, on a \<open>simple_chain\<close>: the outpoint has
  a spend on record and the spending transaction's height is at most the fork index.
\<close>

definition spent_up_to_fork :: "blockchain_view \<Rightarrow> output_point \<Rightarrow> bool" where
  "spent_up_to_fork w outpoint =
     (case get_outpoint_transaction (interface w) outpoint of
        None \<Rightarrow> False
      | Some tx_hash \<Rightarrow>
          (case get_transaction_height (interface w) tx_hash of
             None \<Rightarrow> False
           | Some tx_height \<Rightarrow> tx_height \<le> fork_index w))"

text \<open>
  \<open>orphan_is_spent\<close> (\<open>is_orphan_spent\<close> in the other copy; the loops are the same): three
  nested loops over the orphan blocks \<open>0 .. orphan_index\<close>, their transactions and their
  inputs. The input at \<open>(orphan_index, skip_tx, skip_input)\<close> is passed over; any other input
  whose previous output is the outpoint ends the search with true. Reading the orphan chain
  past its end is \<open>None\<close>. The two assertions on the orphan block's transactions guard no
  read and are compiled out of a release build; they are not part of the model.
\<close>

fun scan_inputs :: "bool \<Rightarrow> nat \<Rightarrow> output_point \<Rightarrow> nat \<Rightarrow> transaction_input_type list \<Rightarrow> bool" where
  "scan_inputs skip_here skip_input po input_index [] = False"
| "scan_inputs skip_here skip_input po input_index (orphan_input # rest) =
     (if skip_here \<and> input_index = skip_input
      then scan_inputs skip_here skip_input po (Suc input_index) rest
      else if previous_output orphan_input = po then True
      else scan_inputs skip_here skip_input po (Suc input_index) rest)"

fun scan_transactions ::
  "bool \<Rightarrow> nat \<Rightarrow> nat \<Rightarrow> output_point \<Rightarrow> nat \<Rightarrow> transaction_type list \<Rightarrow> bool" where
  "scan_transactions at_candidate skip_tx skip_input po tx_index [] = False"
| "scan_transactions at_candidate skip_tx skip_input po tx_index (orphan_tx # rest) =
     (if scan_inputs (at_candidate \<and> tx_index = skip_tx) skip_input po 0 (inputs orphan_tx)
      then True
      else scan_transactions at_candidate skip_tx skip_input po (Suc tx_index) rest)"

fun scan_orphans ::
  "'s validate_block_impl \<Rightarrow> nat \<Rightarrow> nat \<Rightarrow> output_point \<Rightarrow> nat list \<Rightarrow> bool option" where
  "scan_orphans v skip_tx skip_input po [] = Some False"
| "scan_orphans v skip_tx skip_input po (orphan # rest) =
     (if orphan < length (orphan_chain v) then
        (if scan_transactions (orphan = orphan_index v) skip_tx skip_input po 0
              (transactions (orphan_chain v ! orphan))
         then Some True
         else scan_orphans v skip_tx skip_input po rest)
      else None)"

definition orphan_is_spent :: "'s validate_block_impl \<Rightarrow> output_point \<Rightarrow> nat \<Rightarrow> nat \<Rightarrow> bool option" where
  "orphan_is_spent v po skip_tx skip_input =
     scan_orphans v skip_tx skip_input po [0..<Suc (orphan_index v)]"

text \<open>The full check of each copy: the committed check first, then the orphan branch.\<close>

definition is_output_spent_full :: "chain_view \<Rightarrow> output_point \<Rightarrow> nat \<Rightarrow> nat \<Rightarrow> bool option" where
  "is_output_spent_full v po index_in_parent input_index =
     (if is_output_spent v po then Some True
      else case orphan_is_spent v po index_in_parent input_index of
             None \<Rightarrow> None
           | Some spent \<Rightarrow> if spent then Some True else Some False)"



section \<open>Block locator queries of \<open>blockchain_impl\<close>\<close>

text \<open>
  \<open>fetch_locator_blocks\<close>, the body of its \<open>do_fetch\<close>. \<open>hash_block_header\<close> belongs to the
  base library and is a parameter. The start height is that of the first start hash found on
  the chain (0 if none), the stop height is at most \<open>start + 501\<close>, lowered to the height of
  \<open>hash_stop\<close> if that is on the chain, and a threshold on the chain may raise the start.
  The last loop runs \<open>index\<close> from \<open>start + 1\<close> while \<open>index < stop\<close>; on a lookup that
  finds nothing it pushes the hash of that result's header and breaks. The header of a result
  that holds no block is a read through a null record: the model has no value for it and
  returns \<open>None\<close>.
\<close>

record get_blocks_type =
  start_hashes :: "hash_digest list"
  hash_stop :: hash_digest

definition null_hash :: hash_digest where
  "null_hash = replicate 32 0"

definition maximum_get_blocks :: nat where
  "maximum_get_blocks = 500"

fun first_start :: "db_interface \<Rightarrow> hash_digest list \<Rightarrow> nat" where
  "first_start db [] = 0"
| "first_start db (h # rest) =
     (case blocks_get_hash db h of
        Some result_height \<Rightarrow> result_height
      | None \<Rightarrow> first_start db rest)"

fun build_hashes ::
  "(block_header_type \<Rightarrow> hash_digest) \<Rightarrow> db_interface \<Rightarrow> nat list \<Rightarrow> hash_digest list
     \<Rightarrow> hash_digest list option" where
  "build_hashes hash_block_header db [] hashes = Some hashes"
| "build_hashes hash_block_header db (i # rest) hashes =
     (case blocks_get db i of
        None \<Rightarrow> None
      | Some result \<Rightarrow> build_hashes hash_block_header db rest hashes)"

definition locator_bounds :: "db_interface \<Rightarrow> get_blocks_type \<Rightarrow> hash_digest \<Rightarrow> nat \<times> nat" where
  "locator_bounds db locator threshold =
     (let start0 = first_start db (start_hashes locator);
          stop0 = start0 + maximum_get_blocks + 1;
          stop = (if hash_stop locator \<noteq> null_hash then
                    (case blocks_get_hash db (hash_stop locator) of
                       Some stop_height \<Rightarrow> min stop_height stop0
                     | None \<Rightarrow> stop0)
                  else stop0);
          start = (if threshold \<noteq> null_hash then
                     (case blocks_get_hash db threshold of
                        Some start_height \<Rightarrow> max start_height start0
                      | None \<Rightarrow> start0)
                   else start0)
      in (start, stop))"

definition fetch_locator_blocks ::
  "(block_header_type \<Rightarrow> hash_digest) \<Rightarrow> db_interface \<Rightarrow> get_blocks_type \<Rightarrow> hash_digest
     \<Rightarrow> hash_digest list option" where
  "fetch_locator_blocks hash_block_header db locator threshold =
     (case locator_bounds db locator threshold of
        (start, stop) \<Rightarrow> build_hashes hash_block_header db [Suc start..<stop] [])"

text \<open>
  The behaviour the specification states for the same loop: push the header hash while the
  lookup finds a block, stop at the first height where it does not.
\<close>

fun push_while_valid ::
  "(block_header_type \<Rightarrow> hash_digest) \<Rightarrow> db_interface \<Rightarrow> nat list \<Rightarrow> hash_digest list
     \<Rightarrow> hash_digest list" where
  "push_while_valid hash_block_header db [] hashes = hashes"
| "push_while_valid hash_block_header db (i # rest) hashes =
     (case blocks_get db i of
        None \<Rightarrow> hashes
      | Some result \<Rightarrow> push_while_valid hash_block_header db rest (hashes @ [hash_block_header result]))"

definition locator_blocks_as_specified ::
  "(block_header_type \<Rightarrow> hash_digest) \<Rightarrow> db_interface \<Rightarrow> get_blocks_type \<Rightarrow> hash_digest
     \<Rightarrow> hash_digest list" where
  "locator_blocks_as_specified hash_block_header db locator threshold =
     (case locator_bounds db locator threshold of
        (start, stop) \<Rightarrow> push_while_valid hash_block_header db [Suc start..<stop] [])"

section \<open>Required work\<close>

text \<open>
  \<open>hash_number\<close> is the 256-bit unsigned number of the base library; its compact codec, the
  conversion from a hash and the two network constants are outside the sources and enter as
  parameters. \<open>set_compact\<close> gives its return value and the number it leaves behind.
  Multiplication and division are those of 256-bit unsigned arithmetic.
\<close>

type_synonym hash_number = "256 word"

record hash_number_ops =
  set_compact :: "32 word \<Rightarrow> bool \<times> hash_number"
  compact :: "hash_number \<Rightarrow> 32 word"
  set_hash :: "hash_digest \<Rightarrow> hash_number"
  max_target :: hash_number
  max_work_bits :: "32 word"










section \<open>The UTXO index\<close>




















section \<open>The block validator\<close>

text \<open>
  The error codes the validator returns, with the four that \<open>check_transaction\<close> may hand
  through.
\<close>

datatype error_code =
    success | service_stopped
  | size_limits | proof_of_work | futuristic_timestamp | first_not_coinbase | extra_coinbases
  | duplicate | too_many_sigs | merkle_mismatch
  | incorrect_proof_of_work | timestamp_too_early | non_final_transaction | checkpoints_failed
  | old_version_block | coinbase_height_mismatch
  | duplicate_or_spent | validate_inputs_failed | fees_out_of_range | coinbase_too_large
  | empty_transaction | output_value_overflow | invalid_coinbase_script_size | previous_output_null

datatype payment_type = script_hash | other_payment

text \<open>
  The functions of the base library, of \<open>validate_transaction\<close> and of \<open>checkpoint\<close> that
  the validator calls. They are outside the sources and enter as parameters.
  \<open>current_time\<close> is the wall clock in seconds, \<open>checkpoint_validate\<close> has the
  validator's checkpoint list built in, \<open>parse_script\<close> is \<open>None\<close> where the source throws
  \<open>end_of_stream\<close>, and \<open>tally_fees\<close> is \<open>None\<close> where the source returns false and the
  new fee total otherwise.
\<close>

record collaborators =
  numbers :: hash_number_ops
  satoshi_raw_size :: "block_type \<Rightarrow> nat"
  hash_block_header :: "block_header_type \<Rightarrow> hash_digest"
  hash_transaction :: "transaction_type \<Rightarrow> hash_digest"
  check_transaction :: "transaction_type \<Rightarrow> error_code"
  generate_merkle_root :: "transaction_type list \<Rightarrow> hash_digest"
  current_time :: nat
  is_final :: "transaction_type \<Rightarrow> nat \<Rightarrow> 32 word \<Rightarrow> bool"
  checkpoint_validate :: "hash_digest \<Rightarrow> nat \<Rightarrow> bool"
  save_script :: "script_type \<Rightarrow> data_chunk"
  script_number_data :: "nat \<Rightarrow> data_chunk"
  script_payment_type :: "script_type \<Rightarrow> payment_type"
  parse_script :: "data_chunk \<Rightarrow> script_type option"
  check_consensus :: "script_type \<Rightarrow> transaction_type \<Rightarrow> nat \<Rightarrow> script_context set \<Rightarrow> bool"
  tally_fees :: "transaction_type \<Rightarrow> 64 word \<Rightarrow> 64 word \<Rightarrow> 64 word option"
  total_output_value :: "transaction_type \<Rightarrow> 64 word"
  block_value :: "nat \<Rightarrow> 64 word"

text \<open>
  Modelled from the spec: \<open>is_coinbase\<close>, \<open>max_money\<close> and \<open>coinbase_maturity\<close> belong to
  the base library. A coinbase has a single input whose previous output is the null point
  (hash all zero, index \<open>0xFFFFFFFF\<close>); \<open>max_money\<close> is \<open>21 * 10 ^ 14\<close> and
  \<open>coinbase_maturity\<close> is 100.
\<close>

definition null_point :: output_point where
  "null_point = \<lparr> hash = replicate 32 0, index = 0xFFFFFFFF \<rparr>"

definition is_coinbase :: "transaction_type \<Rightarrow> bool" where
  "is_coinbase tx = (length (inputs tx) = 1 \<and> previous_output (hd (inputs tx)) = null_point)"

definition max_money :: "64 word" where
  "max_money = 2100000000000000"

definition coinbase_maturity :: nat where
  "coinbase_maturity = 100"

definition max_block_size :: nat where
  "max_block_size = 1000000"

definition max_block_script_sig_operations :: nat where
  "max_block_script_sig_operations = max_block_size div 50"

text \<open>
  The stop callback is consulted many times and may answer differently each time. The model
  carries the answers it will give, in order, as a list; a consultation reads the head and
  leaves the tail, and a list that has run out answers false. \<open>return_if_stopped\<close> is the
  macro \<open>RETURN_IF_STOPPED\<close> followed by the rest of the function.
\<close>

definition stopped :: "bool list \<Rightarrow> bool" where
  "stopped stops = (case stops of [] \<Rightarrow> False | answer # later \<Rightarrow> answer)"

definition return_if_stopped ::
  "bool list \<Rightarrow> (bool list \<Rightarrow> error_code \<times> bool list) \<Rightarrow> error_code \<times> bool list" where
  "return_if_stopped stops rest_of_function =
     (if stopped stops then (service_stopped, tl stops) else rest_of_function (tl stops))"

text \<open>\<open>is_active\<close> and \<open>is_valid_version\<close>, on the context set by \<open>initialize_context\<close>.\<close>

definition is_active :: "block_context \<Rightarrow> block_type \<Rightarrow> script_context \<Rightarrow> bool" where
  "is_active ctx current_block flag =
     (if flag \<notin> activations ctx then False
      else (let ver = version (header current_block)
            in (flag = bip65_enabled \<and> ver \<ge> ucast version_4)
             \<or> (flag = bip66_enabled \<and> ver \<ge> ucast version_3)
             \<or> (flag = bip34_enabled \<and> ver \<ge> ucast version_2)))"


subsection \<open>Stateless checks\<close>

definition is_valid_proof_of_work :: "hash_number_ops \<Rightarrow> hash_digest \<Rightarrow> 32 word \<Rightarrow> bool" where
  "is_valid_proof_of_work ops block_hash block_bits =
     (case set_compact ops block_bits of
        (ok, target) \<Rightarrow>
          if \<not> ok then False
          else if target \<le> 0 \<or> target > max_target ops then False
          else set_hash ops block_hash \<le> target)"

definition is_valid_time_stamp :: "collaborators \<Rightarrow> 32 word \<Rightarrow> bool" where
  "is_valid_time_stamp lib block_timestamp =
     (let two_hour_future = current_time lib + 2 * 60 * 60;
          block_time = unat block_timestamp
      in block_time \<le> two_hour_future)"

definition is_distinct_tx_set :: "collaborators \<Rightarrow> transaction_type list \<Rightarrow> bool" where
  "is_distinct_tx_set lib txs =
     (let hashes = sort (map (hash_transaction lib) txs)
      in remdups_adj hashes = hashes)"

text \<open>
  The opcodes are the bytes of the base library's enumeration; the validator names the four
  signature opcodes, \<open>op_1\<close> to \<open>op_16\<close> (81 to 96), \<open>special\<close> and \<open>bad_operation\<close>.
\<close>

definition special :: opcode where "special = 1"
definition op_1 :: opcode where "op_1 = 81"
definition op_16 :: opcode where "op_16 = 96"
definition checksig :: opcode where "checksig = 172"
definition checksigverify :: opcode where "checksigverify = 173"
definition checkmultisig :: opcode where "checkmultisig = 174"
definition checkmultisigverify :: opcode where "checkmultisigverify = 175"
definition bad_operation :: opcode where "bad_operation = 186"

definition within_op_n :: "opcode \<Rightarrow> bool" where
  "within_op_n c = (op_1 \<le> c \<and> c \<le> op_16)"

definition decode_op_n :: "opcode \<Rightarrow> byte" where
  "decode_op_n c = c - op_1 + 1"

fun count_operations :: "bool \<Rightarrow> opcode \<Rightarrow> nat \<Rightarrow> operation list \<Rightarrow> nat" where
  "count_operations accurate last_opcode total_sigs [] = total_sigs"
| "count_operations accurate last_opcode total_sigs (op # rest) =
     count_operations accurate (code op)
       (if code op = checksig \<or> code op = checksigverify then total_sigs + 1
        else if code op = checkmultisig \<or> code op = checkmultisigverify then
          (if accurate \<and> within_op_n last_opcode then total_sigs + unat (decode_op_n last_opcode)
           else total_sigs + 20)
        else total_sigs)
       rest"

definition count_script_sigops :: "operation list \<Rightarrow> bool \<Rightarrow> nat" where
  "count_script_sigops operations accurate = count_operations accurate bad_operation 0 operations"

definition legacy_sigops_count :: "transaction_type \<Rightarrow> nat" where
  "legacy_sigops_count tx =
     (let after_inputs =
            foldl (\<lambda>total_sigs input. total_sigs + count_script_sigops (in_script input) False)
              0 (inputs tx)
      in foldl (\<lambda>total_sigs output. total_sigs + count_script_sigops (out_script output) False)
           after_inputs (outputs tx))"

definition legacy_sigops_count_list :: "transaction_type list \<Rightarrow> nat" where
  "legacy_sigops_count_list txs =
     foldl (\<lambda>total_sigs tx. total_sigs + legacy_sigops_count tx) 0 txs"

text \<open>
  \<open>check_block\<close>. The two loops consult the stop callback before each transaction; the
  first loop starts at the second transaction.
\<close>

fun check_extra_coinbases :: "transaction_type list \<Rightarrow> bool list \<Rightarrow> error_code \<times> bool list" where
  "check_extra_coinbases [] stops = (success, stops)"
| "check_extra_coinbases (tx # rest) stops =
     (if stopped stops then (service_stopped, tl stops)
      else if is_coinbase tx then (extra_coinbases, tl stops)
      else check_extra_coinbases rest (tl stops))"

fun check_transactions ::
  "collaborators \<Rightarrow> transaction_type list \<Rightarrow> bool list \<Rightarrow> error_code \<times> bool list" where
  "check_transactions lib [] stops = (success, stops)"
| "check_transactions lib (tx # rest) stops =
     (if stopped stops then (service_stopped, tl stops)
      else (let ec = check_transaction lib tx
            in if ec \<noteq> success then (ec, tl stops)
               else check_transactions lib rest (tl stops)))"

definition check_block :: "collaborators \<Rightarrow> block_type \<Rightarrow> bool list \<Rightarrow> error_code \<times> bool list" where
  "check_block lib current_block stops =
     (let txs = transactions current_block in
      if txs = [] \<or> length txs > max_block_size
         \<or> satoshi_raw_size lib current_block > max_block_size
      then (size_limits, stops)
      else
        (let hdr = header current_block;
             block_hash = hash_block_header lib hdr in
         if \<not> is_valid_proof_of_work (numbers lib) block_hash (bits hdr)
         then (proof_of_work, stops)
         else return_if_stopped stops (\<lambda>stops.
           if \<not> is_valid_time_stamp lib (timestamp hdr) then (futuristic_timestamp, stops)
           else return_if_stopped stops (\<lambda>stops.
             if \<not> is_coinbase (hd txs) then (first_not_coinbase, stops)
             else
               (case check_extra_coinbases (tl txs) stops of
                  (ec, stops) \<Rightarrow>
                    if ec \<noteq> success then (ec, stops)
                    else
                      (case check_transactions lib txs stops of
                         (ec, stops) \<Rightarrow>
                           if ec \<noteq> success then (ec, stops)
                           else return_if_stopped stops (\<lambda>stops.
                             if \<not> is_distinct_tx_set lib txs then (duplicate, stops)
                             else return_if_stopped stops (\<lambda>stops.
                               if legacy_sigops_count_list txs > max_block_script_sig_operations
                               then (too_many_sigs, stops)
                               else return_if_stopped stops (\<lambda>stops.
                                 if merkle hdr \<noteq> generate_merkle_root lib txs
                                 then (merkle_mismatch, stops)
                                 else (success, stops))))))))))"

text \<open>
  The order of checks the specification lists for phase A, with no cancellation: the error
  of the first check that fails, or success.
\<close>

definition first_violation :: "collaborators \<Rightarrow> block_type \<Rightarrow> error_code" where
  "first_violation lib current_block =
     (let txs = transactions current_block; hdr = header current_block in
      if txs = [] \<or> length txs > 1000000 \<or> satoshi_raw_size lib current_block > 1000000
      then size_limits
      else if \<not> is_valid_proof_of_work (numbers lib) (hash_block_header lib hdr) (bits hdr)
      then proof_of_work
      else if \<not> is_valid_time_stamp lib (timestamp hdr) then futuristic_timestamp
      else if \<not> is_coinbase (hd txs) then first_not_coinbase
      else if list_ex is_coinbase (tl txs) then extra_coinbases
      else (case find (\<lambda>tx. check_transaction lib tx \<noteq> success) txs of
              Some tx \<Rightarrow> check_transaction lib tx
            | None \<Rightarrow>
                if \<not> distinct (map (hash_transaction lib) txs) then duplicate
                else if legacy_sigops_count_list txs > 20000 then too_many_sigs
                else if merkle hdr \<noteq> generate_merkle_root lib txs then merkle_mismatch
                else success))"

subsection \<open>Contextual checks\<close>






subsection \<open>Connected checks\<close>

text \<open>
  \<open>fetch_transaction\<close>: the transaction index first; a transaction it does not have, or has
  above the fork point, is looked for in the orphan blocks \<open>0 .. orphan_index\<close>, where it
  gets the height \<open>fork_index + orphan + 1\<close>. The outer \<open>None\<close> is a read of the orphan
  chain past its end, the inner one a transaction that is not found.
\<close>

fun find_orphan_tx ::
  "collaborators \<Rightarrow> hash_digest \<Rightarrow> transaction_type list \<Rightarrow> transaction_type option" where
  "find_orphan_tx lib tx_hash [] = None"
| "find_orphan_tx lib tx_hash (orphan_tx # rest) =
     (if hash_transaction lib orphan_tx = tx_hash then Some orphan_tx
      else find_orphan_tx lib tx_hash rest)"

fun fetch_orphans ::
  "collaborators \<Rightarrow> chain_view \<Rightarrow> hash_digest \<Rightarrow> nat list \<Rightarrow> (transaction_type \<times> nat) option option" where
  "fetch_orphans lib v tx_hash [] = Some None"
| "fetch_orphans lib v tx_hash (orphan # rest) =
     (if orphan < length (orphan_chain v) then
        (case find_orphan_tx lib tx_hash (transactions (orphan_chain v ! orphan)) of
           Some orphan_tx \<Rightarrow> Some (Some (orphan_tx, fork_index v + orphan + 1))
         | None \<Rightarrow> fetch_orphans lib v tx_hash rest)
      else None)"

definition fetch_orphan_transaction ::
  "collaborators \<Rightarrow> chain_view \<Rightarrow> hash_digest \<Rightarrow> (transaction_type \<times> nat) option option" where
  "fetch_orphan_transaction lib v tx_hash = fetch_orphans lib v tx_hash [0..<Suc (orphan_index v)]"

definition fetch_transaction ::
  "collaborators \<Rightarrow> chain_view \<Rightarrow> hash_digest \<Rightarrow> (transaction_type \<times> nat) option option" where
  "fetch_transaction lib v tx_hash =
     (case transactions_get (interface v) tx_hash of
        None \<Rightarrow> fetch_orphan_transaction lib v tx_hash
      | Some result \<Rightarrow>
          if tx_after_fork (snd result) (fork_index v) then fetch_orphan_transaction lib v tx_hash
          else Some (Some result))"

definition is_spent_duplicate :: "collaborators \<Rightarrow> chain_view \<Rightarrow> transaction_type \<Rightarrow> bool" where
  "is_spent_duplicate lib v tx =
     (let tx_hash = hash_transaction lib tx in
      if \<not> transaction_exists v tx_hash then False
      else list_all (\<lambda>output_index. is_output_spent v \<lparr> hash = tx_hash, index = of_nat output_index \<rparr>)
             [0..<length (outputs tx)])"

text \<open>
  \<open>script_hash_signature_operations_count\<close>; \<open>None\<close> where parsing the last push of the
  input script throws.
\<close>

definition script_hash_signature_operations_count ::
  "collaborators \<Rightarrow> script_type \<Rightarrow> script_type \<Rightarrow> nat option" where
  "script_hash_signature_operations_count lib output_script input_script =
     (if script_payment_type lib output_script \<noteq> script_hash then Some 0
      else if input_script = [] then Some 0
      else (case parse_script lib (data (last input_script)) of
              None \<Rightarrow> None
            | Some eval_script \<Rightarrow> Some (count_script_sigops eval_script True)))"

text \<open>
  \<open>connect_input\<close> returns whether the input connects, with \<open>value_in\<close> and \<open>total_sigops\<close>
  as the call leaves them. \<open>None\<close> is a read out of range: of the inputs, of the previous
  transaction's outputs, or of the orphan chain. The height difference is taken in
  \<open>size_t\<close>, 64 bits wide, and the sum of values in \<open>uint64_t\<close>.
\<close>

definition connect_input ::
  "collaborators \<Rightarrow> block_context \<Rightarrow> chain_view \<Rightarrow> nat \<Rightarrow> transaction_type \<Rightarrow> nat
     \<Rightarrow> 64 word \<Rightarrow> nat \<Rightarrow> (bool \<times> 64 word \<times> nat) option" where
  "connect_input lib ctx v index_in_parent current_tx input_index value_in total_sigops =
     (if \<not> input_index < length (inputs current_tx) then None
      else
        (let input = inputs current_tx ! input_index;
             prevout = previous_output input in
         case fetch_transaction lib v (hash prevout) of
           None \<Rightarrow> None
         | Some None \<Rightarrow> Some (False, value_in, total_sigops)
         | Some (Some (previous_tx, previous_height)) \<Rightarrow>
             if \<not> unat (index prevout) < length (outputs previous_tx) then None
             else
               (let previous_tx_out = outputs previous_tx ! unat (index prevout) in
                case script_hash_signature_operations_count lib
                       (out_script previous_tx_out) (in_script input) of
                  None \<Rightarrow> Some (False, value_in, total_sigops)
                | Some sigops \<Rightarrow>
                    (let total_sigops = total_sigops + sigops in
                     if total_sigops > max_block_script_sig_operations
                     then Some (False, value_in, total_sigops)
                     else
                       (let output_value = out_value previous_tx_out in
                        if output_value > max_money then Some (False, value_in, total_sigops)
                        else if is_coinbase previous_tx
                                \<and> (height v + 2 ^ 64 - previous_height) mod 2 ^ 64 < coinbase_maturity
                        then Some (False, value_in, total_sigops)
                        else if \<not> check_consensus lib (out_script previous_tx_out) current_tx
                                   input_index (activations ctx)
                        then Some (False, value_in, total_sigops)
                        else
                          (case is_output_spent_full v prevout index_in_parent input_index of
                             None \<Rightarrow> None
                           | Some spent \<Rightarrow>
                               if spent then Some (False, value_in, total_sigops)
                               else
                                 (let value_in = value_in + output_value in
                                  if value_in > max_money then Some (False, value_in, total_sigops)
                                  else Some (True, value_in, total_sigops))))))))"

fun validate_input_list ::
  "collaborators \<Rightarrow> block_context \<Rightarrow> chain_view \<Rightarrow> nat \<Rightarrow> transaction_type \<Rightarrow> nat list
     \<Rightarrow> 64 word \<Rightarrow> nat \<Rightarrow> (bool \<times> 64 word \<times> nat) option" where
  "validate_input_list lib ctx v index_in_parent tx [] value_in total_sigops =
     Some (True, value_in, total_sigops)"
| "validate_input_list lib ctx v index_in_parent tx (input_index # rest) value_in total_sigops =
     (case connect_input lib ctx v index_in_parent tx input_index value_in total_sigops of
        None \<Rightarrow> None
      | Some (ok, value_in, total_sigops) \<Rightarrow>
          if \<not> ok then Some (False, value_in, total_sigops)
          else validate_input_list lib ctx v index_in_parent tx rest value_in total_sigops)"

definition validate_inputs ::
  "collaborators \<Rightarrow> block_context \<Rightarrow> chain_view \<Rightarrow> transaction_type \<Rightarrow> nat
     \<Rightarrow> 64 word \<Rightarrow> nat \<Rightarrow> (bool \<times> 64 word \<times> nat) option" where
  "validate_inputs lib ctx v tx index_in_parent value_in total_sigops =
     validate_input_list lib ctx v index_in_parent tx [0..<length (inputs tx)] value_in total_sigops"

text \<open>
  \<open>connect_block\<close>. Its second loop carries the fees, the signature-operation total and
  the stop answers from one transaction to the next; \<open>connect_transaction\<close> is the body of
  that loop, which either leaves the function with an error (\<open>Inl\<close>) or goes on to the next
  transaction (\<open>Inr\<close>). Reading the first transaction of a block that has none is \<open>None\<close>.
\<close>

type_synonym connect_state = "64 word \<times> nat \<times> bool list"

fun check_spent_duplicates ::
  "collaborators \<Rightarrow> chain_view \<Rightarrow> transaction_type list \<Rightarrow> bool list \<Rightarrow> error_code \<times> bool list" where
  "check_spent_duplicates lib v [] stops = (success, stops)"
| "check_spent_duplicates lib v (tx # rest) stops =
     (if is_spent_duplicate lib v tx then (duplicate_or_spent, stops)
      else if stopped stops then (service_stopped, tl stops)
      else check_spent_duplicates lib v rest (tl stops))"

definition connect_transaction ::
  "collaborators \<Rightarrow> block_context \<Rightarrow> chain_view \<Rightarrow> nat \<Rightarrow> transaction_type \<Rightarrow> connect_state
     \<Rightarrow> (error_code \<times> bool list + connect_state) option" where
  "connect_transaction lib ctx v tx_index tx state =
     (case state of
        (fees, total_sigops, stops) \<Rightarrow>
          (let value_in = 0;
               total_sigops = total_sigops + legacy_sigops_count tx in
           if total_sigops > max_block_script_sig_operations then Some (Inl (too_many_sigs, stops))
           else if stopped stops then Some (Inl (service_stopped, tl stops))
           else
             (let stops = tl stops in
              if is_coinbase tx then Some (Inr (fees, total_sigops, stops))
              else if stopped stops then Some (Inl (service_stopped, tl stops))
              else
                (let stops = tl stops in
                 case validate_inputs lib ctx v tx tx_index value_in total_sigops of
                   None \<Rightarrow> None
                 | Some (ok, value_in, total_sigops) \<Rightarrow>
                     if \<not> ok then Some (Inl (validate_inputs_failed, stops))
                     else if stopped stops then Some (Inl (service_stopped, tl stops))
                     else
                       (let stops = tl stops in
                        case tally_fees lib tx value_in fees of
                          None \<Rightarrow> Some (Inl (fees_out_of_range, stops))
                        | Some fees \<Rightarrow> Some (Inr (fees, total_sigops, stops)))))))"

fun connect_transactions ::
  "collaborators \<Rightarrow> block_context \<Rightarrow> chain_view \<Rightarrow> nat \<Rightarrow> transaction_type list \<Rightarrow> connect_state
     \<Rightarrow> (error_code \<times> bool list + connect_state) option" where
  "connect_transactions lib ctx v tx_index [] state = Some (Inr state)"
| "connect_transactions lib ctx v tx_index (tx # rest) state =
     (case connect_transaction lib ctx v tx_index tx state of
        None \<Rightarrow> None
      | Some (Inl failure) \<Rightarrow> Some (Inl failure)
      | Some (Inr state) \<Rightarrow> connect_transactions lib ctx v (Suc tx_index) rest state)"

definition connect_block ::
  "collaborators \<Rightarrow> block_context \<Rightarrow> chain_view \<Rightarrow> block_type \<Rightarrow> bool list
     \<Rightarrow> (error_code \<times> bool list) option" where
  "connect_block lib ctx v current_block stops =
     (let txs = transactions current_block in
      case (if is_active ctx current_block bip30_enabled
            then check_spent_duplicates lib v txs stops
            else (success, stops)) of
        (ec, stops) \<Rightarrow>
          if ec \<noteq> success then Some (ec, stops)
          else
            (case connect_transactions lib ctx v 0 txs (0, 0, stops) of
               None \<Rightarrow> None
             | Some (Inl failure) \<Rightarrow> Some failure
             | Some (Inr (fees, total_sigops, stops)) \<Rightarrow>
                 if stopped stops then Some (service_stopped, tl stops)
                 else
                   (let stops = tl stops in
                    if txs = [] then None
                    else
                      (let coinbase = hd txs;
                           coinbase_value = total_output_value lib coinbase
                       in if coinbase_value > block_value lib (height v) + fees
                          then Some (coinbase_too_large, stops)
                          else Some (success, stops)))))"

text \<open>
  An input that spends a coinbase before it has matured: the previous transaction is found,
  is a coinbase at a height not above the block's, has the output the input names, and the
  block is fewer than \<open>coinbase_maturity\<close> blocks above it.
\<close>

definition immature_coinbase_spend ::
  "collaborators \<Rightarrow> chain_view \<Rightarrow> transaction_type \<Rightarrow> nat \<Rightarrow> bool" where
  "immature_coinbase_spend lib v tx input_index =
     (input_index < length (inputs tx)
      \<and> (case fetch_transaction lib v (hash (previous_output (inputs tx ! input_index))) of
            Some (Some (previous_tx, previous_height)) \<Rightarrow>
              is_coinbase previous_tx
              \<and> unat (index (previous_output (inputs tx ! input_index))) < length (outputs previous_tx)
              \<and> previous_height \<le> height v
              \<and> height v < 2 ^ 64
              \<and> height v - previous_height < 100
          | _ \<Rightarrow> False))"

text \<open>
  The specification's wording of the bip34 rule: the block has a first transaction with a
  first input, and the serialized script of that input begins with the serialized push of
  the height as a script number.
\<close>

definition begins_with_height :: "collaborators \<Rightarrow> nat \<Rightarrow> block_type \<Rightarrow> bool" where
  "begins_with_height lib h blk =
     (transactions blk \<noteq> [] \<and> inputs (hd (transactions blk)) \<noteq> []
      \<and> (let pushed = save_script lib [\<lparr> code = special, data = script_number_data lib h \<rparr>];
              raw = save_script lib (in_script (hd (inputs (hd (transactions blk)))))
          in take (length pushed) raw = pushed))"

text \<open>
  What it means for a phase to honour the stop callback. The answers the phase read are
  the front of the answer list that is missing from what it leaves behind. The phase honours
  the callback if it read no answer after a true one and, having read a true answer,
  returned \<open>service_stopped\<close>.
\<close>

definition honoured :: "bool list \<Rightarrow> error_code \<times> bool list \<Rightarrow> bool" where
  "honoured stops result =
     (let consumed = take (length stops - length (snd result)) stops
      in stops = consumed @ snd result
         \<and> True \<notin> set (butlast consumed)
         \<and> (if True \<in> set consumed then fst result = service_stopped else True))"

section \<open>Example data\<close>

text \<open>Small concrete chains and blocks on which the theorems below are instantiated.\<close>

definition mk_header :: "32 word \<Rightarrow> 32 word \<Rightarrow> 32 word \<Rightarrow> block_header_type" where
  "mk_header ver ts bts =
     \<lparr> version = ver, previous_block_hash = [], merkle = [], timestamp = ts, bits = bts, nonce = 0 \<rparr>"



text \<open>
  An orphan branch of two blocks above a fork at height 1. The first block spends
  \<open>point_p\<close>, the second (the candidate, at orphan index 1) spends \<open>point_q\<close> in its
  transaction 1, input 0.
\<close>

definition example_hash :: "byte \<Rightarrow> hash_digest" where
  "example_hash b = replicate 32 b"

definition point_p :: output_point where
  "point_p = \<lparr> hash = example_hash 7, index = 0 \<rparr>"

definition point_q :: output_point where
  "point_q = \<lparr> hash = example_hash 8, index = 1 \<rparr>"

definition mk_input :: "output_point \<Rightarrow> transaction_input_type" where
  "mk_input po = \<lparr> previous_output = po, in_script = [], sequence = 0xFFFFFFFF \<rparr>"

definition mk_output :: "64 word \<Rightarrow> transaction_output_type" where
  "mk_output v = \<lparr> out_value = v, out_script = [] \<rparr>"

definition mk_tx :: "transaction_input_type list \<Rightarrow> transaction_output_type list \<Rightarrow> transaction_type" where
  "mk_tx ins outs = \<lparr> tx_version = 1, locktime = 0, inputs = ins, outputs = outs \<rparr>"

definition coinbase_tx :: transaction_type where
  "coinbase_tx = mk_tx [mk_input null_point] [mk_output 5000000000]"

definition orphan_block_a :: block_type where
  "orphan_block_a =
     \<lparr> header = mk_header 2 2200 486604799,
       transactions = [coinbase_tx, mk_tx [mk_input point_p] [mk_output 10]] \<rparr>"

definition orphan_block_b :: block_type where
  "orphan_block_b =
     \<lparr> header = mk_header 2 2800 486604799,
       transactions = [coinbase_tx, mk_tx [mk_input point_q] [mk_output 20]] \<rparr>"


text \<open>
  A \<open>simple_chain\<close> on which \<open>point_p\<close> was spent by a transaction at height 5; being spent,
  it is not in the unspent-output set, which holds \<open>point_q\<close> only. The view forks at
  height 3, below that spend.
\<close>

definition spent_at_5 :: simple_chain where
  "spent_at_5 =
     \<lparr> get_outpoint_transaction = [point_p \<mapsto> example_hash 9],
       get_transaction_height = [example_hash 9 \<mapsto> 5],
       contains_outpoint_in_utxo = (\<lambda>outpoint. outpoint = point_q) \<rparr>"

definition fork_3_view :: blockchain_view where
  "fork_3_view =
     \<lparr> interface = spent_at_5, height = 5, fork_index = 3, orphan_index = 1,
       orphan_chain = [orphan_block_a, orphan_block_b] \<rparr>"

text \<open>
  A chain of three blocks at heights 0, 1 and 2. The stand-in for the header hash repeats
  the low byte of the timestamp, which tells these headers apart.
\<close>

definition toy_header_hash :: "block_header_type \<Rightarrow> hash_digest" where
  "toy_header_hash h = replicate 32 (ucast (timestamp h))"

definition three_blocks :: db_interface where
  "three_blocks =
     \<lparr> blocks_get = [0 \<mapsto> mk_header 1 10 486604799, 1 \<mapsto> mk_header 1 11 486604799,
                     2 \<mapsto> mk_header 1 12 486604799],
       blocks_get_hash = [replicate 32 10 \<mapsto> 0, replicate 32 11 \<mapsto> 1, replicate 32 12 \<mapsto> 2],
       transactions_get = Map.empty,
       spends_get = Map.empty \<rparr>"

definition locator_0_to_2 :: get_blocks_type where
  "locator_0_to_2 = \<lparr> start_hashes = [replicate 32 10], hash_stop = replicate 32 12 \<rparr>"

text \<open>
  The compact codec of the base library written out for the examples: a size byte over a
  23-bit mantissa with a sign bit. The main network's maximum target is \<open>0xFFFF * 2 ^ 208\<close>,
  compact \<open>0x1d00ffff\<close>. As the number of a hash the examples take its last byte, the
  most significant one.
\<close>

fun byte_length :: "nat \<Rightarrow> nat" where
  "byte_length n = (if n = 0 then 0 else Suc (byte_length (n div 256)))"

definition example_set_compact :: "32 word \<Rightarrow> bool \<times> hash_number" where
  "example_set_compact c =
     (let size = unat (drop_bit 24 c);
          number = c AND 0x007fffff;
          val = (if size \<le> 3 then ucast (drop_bit (8 * (3 - size)) number)
                 else push_bit (8 * (size - 3)) (ucast number));
          negative = (number \<noteq> 0 \<and> c AND 0x00800000 \<noteq> 0);
          overflow = (number \<noteq> 0 \<and>
                        (size > 34 \<or> (number > 0xff \<and> size > 33) \<or> (number > 0xffff \<and> size > 32)))
      in (\<not> negative \<and> \<not> overflow, val))"

definition example_compact :: "hash_number \<Rightarrow> 32 word" where
  "example_compact n =
     (let size = byte_length (unat n);
          c = (if size \<le> 3 then push_bit (8 * (3 - size)) (ucast n)
               else ucast (drop_bit (8 * (size - 3)) n)) :: 32 word;
          c' = (if c AND 0x00800000 \<noteq> 0 then drop_bit 8 c else c);
          size' = (if c AND 0x00800000 \<noteq> 0 then Suc size else size)
      in c' OR push_bit 24 (of_nat size'))"

definition example_numbers :: hash_number_ops where
  "example_numbers =
     \<lparr> set_compact = example_set_compact,
       compact = example_compact,
       set_hash = (\<lambda>h. ucast (last h)),
       max_target = push_bit 208 0xFFFF,
       max_work_bits = 0x1d00ffff \<rparr>"








text \<open>
  Stand-ins for the collaborators. Hashes are told apart by a byte of the object (the low
  byte of a header's timestamp, of a transaction's version); every transaction passes
  \<open>check_transaction\<close> if it has an input and an output; every script verifies; a script
  number is its minimal little-endian bytes and a push is its length byte and its data.
\<close>

definition low_header_hash :: "block_header_type \<Rightarrow> hash_digest" where
  "low_header_hash h = replicate 31 (ucast (timestamp h)) @ [0]"

definition toy_tx_hash :: "transaction_type \<Rightarrow> hash_digest" where
  "toy_tx_hash tx = replicate 32 (ucast (tx_version tx))"

fun number_bytes :: "nat \<Rightarrow> data_chunk" where
  "number_bytes n = (if n = 0 then [] else of_nat (n mod 256) # number_bytes (n div 256))"

definition example_script_number :: "nat \<Rightarrow> data_chunk" where
  "example_script_number n =
     (let bytes = number_bytes n
      in if bytes \<noteq> [] \<and> last bytes \<ge> 128 then bytes @ [0] else bytes)"

definition example_save_script :: "script_type \<Rightarrow> data_chunk" where
  "example_save_script ops =
     concat (map (\<lambda>op. if code op = special then of_nat (length (data op)) # data op
                         else [code op]) ops)"

definition example_total_output :: "transaction_type \<Rightarrow> 64 word" where
  "example_total_output tx = foldl (\<lambda>total output. total + out_value output) 0 (outputs tx)"

definition example_tally_fees :: "transaction_type \<Rightarrow> 64 word \<Rightarrow> 64 word \<Rightarrow> 64 word option" where
  "example_tally_fees tx value_in fees =
     (if value_in < example_total_output tx then None
      else (let fees = fees + (value_in - example_total_output tx)
            in if fees > max_money then None else Some fees))"

definition example_library :: collaborators where
  "example_library =
     \<lparr> numbers = example_numbers,
       satoshi_raw_size = (\<lambda>blk. 81 + 100 * length (transactions blk)),
       hash_block_header = low_header_hash,
       hash_transaction = toy_tx_hash,
       check_transaction = (\<lambda>tx. if inputs tx = [] \<or> outputs tx = [] then empty_transaction
                                  else success),
       generate_merkle_root = (\<lambda>txs. toy_tx_hash (hd txs)),
       current_time = 3000,
       is_final = (\<lambda>tx h block_timestamp. True),
       checkpoint_validate = (\<lambda>block_hash h. True),
       save_script = example_save_script,
       script_number_data = example_script_number,
       script_payment_type = (\<lambda>script. other_payment),
       parse_script = (\<lambda>bytes. Some []),
       check_consensus = (\<lambda>script tx input_index flags. True),
       tally_fees = example_tally_fees,
       total_output_value = example_total_output,
       block_value = (\<lambda>h. 5000000000) \<rparr>"

text \<open>
  Candidate blocks for height 2 on the two-block chain \<open>example_db\<close>. Their coinbase pushes
  a height: 2 in \<open>height_2_coinbase\<close>, 3 in \<open>height_3_coinbase\<close>.
\<close>

definition push_height :: "nat \<Rightarrow> script_type" where
  "push_height h = [\<lparr> code = special, data = example_script_number h \<rparr>]"

definition numbered_tx ::
  "32 word \<Rightarrow> transaction_input_type list \<Rightarrow> transaction_output_type list \<Rightarrow> transaction_type" where
  "numbered_tx n ins outs = \<lparr> tx_version = n, locktime = 0, inputs = ins, outputs = outs \<rparr>"

definition height_2_coinbase :: transaction_type where
  "height_2_coinbase =
     numbered_tx 20
       [\<lparr> previous_output = null_point, in_script = push_height 2, sequence = 0xFFFFFFFF \<rparr>]
       [mk_output 5000000000]"


definition candidate_header :: "32 word \<Rightarrow> transaction_type \<Rightarrow> block_header_type" where
  "candidate_header ver first_tx =
     \<lparr> version = ver, previous_block_hash = low_header_hash (mk_header 536870912 1600 486604799),
       merkle = toy_tx_hash first_tx, timestamp = 2200, bits = 0x1d00ffff, nonce = 0 \<rparr>"

definition lone_coinbase_block :: block_type where
  "lone_coinbase_block =
     \<lparr> header = candidate_header 2 height_2_coinbase, transactions = [height_2_coinbase] \<rparr>"


definition empty_block :: block_type where
  "empty_block = \<lparr> header = candidate_header 2 height_2_coinbase, transactions = [] \<rparr>"


definition bip34_context :: block_context where
  "bip34_context = \<lparr> minimum_version = 1, activations = {bip34_enabled, bip30_enabled} \<rparr>"

text \<open>
  A store that knows two transactions: a coinbase in the block at height 1 and an ordinary
  transaction in the block at height 0. \<open>immature_block\<close> spends the coinbase at height 2;
  \<open>two_input_block\<close> spends the ordinary transaction with its first input and an unknown
  transaction with its second.
\<close>

definition height_1_coinbase :: transaction_type where
  "height_1_coinbase =
     numbered_tx 10
       [\<lparr> previous_output = null_point, in_script = push_height 1, sequence = 0xFFFFFFFF \<rparr>]
       [mk_output 5000000000]"

definition funding_tx :: transaction_type where
  "funding_tx = numbered_tx 11 [mk_input point_q] [mk_output 50]"

definition spend_db :: db_interface where
  "spend_db =
     \<lparr> blocks_get = [0 \<mapsto> mk_header 1 1000 486604799, 1 \<mapsto> mk_header 536870912 1600 486604799],
       blocks_get_hash = Map.empty,
       transactions_get = [toy_tx_hash height_1_coinbase \<mapsto> (height_1_coinbase, 1),
                           toy_tx_hash funding_tx \<mapsto> (funding_tx, 0)],
       spends_get = Map.empty \<rparr>"

definition immature_spend_tx :: transaction_type where
  "immature_spend_tx =
     numbered_tx 21 [mk_input \<lparr> hash = toy_tx_hash height_1_coinbase, index = 0 \<rparr>] [mk_output 40]"

definition immature_block :: block_type where
  "immature_block =
     \<lparr> header = candidate_header 2 height_2_coinbase,
       transactions = [height_2_coinbase, immature_spend_tx] \<rparr>"

definition immature_view :: chain_view where
  "immature_view =
     \<lparr> interface = spend_db, height = 2, fork_index = 1, orphan_index = 0,
       orphan_chain = [immature_block] \<rparr>"




section \<open>Properties of the version sample\<close>












section \<open>Properties of the spentness checks\<close>

lemma is_output_spent_iff:
  "is_output_spent v outpoint =
     (\<exists>spend tx h. spends_get (interface v) outpoint = Some spend
         \<and> transactions_get (interface v) (hash spend) = Some (tx, h)
         \<and> h \<le> fork_index v)"
  by (auto simp: is_output_spent_def transaction_exists_def tx_after_fork_def split: option.splits)

lemma blockchain_is_output_spent_fork:
  "blockchain_is_output_spent (w\<lparr>fork_index := f\<rparr>) outpoint = blockchain_is_output_spent w outpoint"
  by (simp add: blockchain_is_output_spent_def)

text \<open>
  Claim C1. The copy of namespace \<open>chain\<close> meets the claim (\<open>is_output_spent_iff\<close>). The copy
  of namespace \<open>blockchain\<close> does not: it returns the negated unspent-set lookup, whatever
  the fork index (\<open>blockchain_is_output_spent_fork\<close>). On the chain \<open>spent_at_5\<close>, whose
  only spend of \<open>point_p\<close> is at height 5, above the fork point 3, it answers true where the
  claim asks for false.
\<close>

theorem blockchain_is_output_spent_above_fork:
  "get_outpoint_transaction (interface fork_3_view) point_p = Some (example_hash 9)
   \<and> get_transaction_height (interface fork_3_view) (example_hash 9) = Some 5
   \<and> fork_index fork_3_view = 3
   \<and> spent_up_to_fork fork_3_view point_p = False
   \<and> blockchain_is_output_spent fork_3_view point_p = True"
  by code_simp









section \<open>Properties of the locator query\<close>

lemma build_hashes_unchanged:
  "build_hashes f db is hashes = Some hs \<Longrightarrow> hs = hashes"
  by (induction "is" arbitrary: hashes) (auto split: option.splits)

lemma fetch_locator_blocks_empty:
  "fetch_locator_blocks f db locator threshold = Some hs \<Longrightarrow> hs = []"
  by (auto simp: fetch_locator_blocks_def dest: build_hashes_unchanged split: prod.splits)

text \<open>
  Claim C9. The claim describes \<open>locator_blocks_as_specified\<close>; the code pushes only on a
  lookup that finds nothing, so it never returns a hash of a block of the chain
  (\<open>fetch_locator_blocks_empty\<close>). On the chain of three blocks, asked for the blocks after
  height 0 and before the block at height 2, the block at height 1 is found and nothing is
  pushed: the code returns the empty list where the claim asks for the hash of block 1.
\<close>

theorem fetch_locator_blocks_pushes_nothing:
  "locator_bounds three_blocks locator_0_to_2 null_hash = (0, 2)
   \<and> fetch_locator_blocks toy_header_hash three_blocks locator_0_to_2 null_hash = Some []
   \<and> locator_blocks_as_specified toy_header_hash three_blocks locator_0_to_2 null_hash
       = [replicate 32 11]"
  by code_simp

section \<open>Properties of the required work\<close>




















section \<open>Properties of the UTXO index\<close>













section \<open>Properties of the stateless checks\<close>

lemma not_stopped: "True \<notin> set stops \<Longrightarrow> \<not> stopped stops"
  by (cases stops) (auto simp: stopped_def)

lemma tl_no_stop: "True \<notin> set stops \<Longrightarrow> True \<notin> set (tl stops)"
  by (cases stops) auto

lemma return_if_not_stopped:
  "True \<notin> set stops \<Longrightarrow> return_if_stopped stops k = k (tl stops)"
  by (simp add: return_if_stopped_def not_stopped)

lemma check_extra_coinbases_no_stop:
  "True \<notin> set stops \<Longrightarrow>
   fst (check_extra_coinbases txs stops) = (if list_ex is_coinbase txs then extra_coinbases else success)
   \<and> True \<notin> set (snd (check_extra_coinbases txs stops))"
  by (induction txs arbitrary: stops) (auto simp: not_stopped tl_no_stop)

lemma check_transactions_no_stop:
  "True \<notin> set stops \<Longrightarrow>
   fst (check_transactions lib txs stops) =
     (case find (\<lambda>tx. check_transaction lib tx \<noteq> success) txs of
        Some tx \<Rightarrow> check_transaction lib tx | None \<Rightarrow> success)
   \<and> True \<notin> set (snd (check_transactions lib txs stops))"
  by (induction txs arbitrary: stops) (auto simp: not_stopped tl_no_stop Let_def)

lemma sorted_distinct_adj: "sorted xs \<Longrightarrow> distinct_adj xs = distinct xs"
proof (induction xs)
  case Nil
  then show ?case by simp
next
  case (Cons x xs)
  show ?case
  proof (cases xs)
    case Nil
    then show ?thesis by simp
  next
    case (Cons y ys)
    have le: "x \<le> y" "\<forall>z \<in> set ys. y \<le> z" "\<forall>z \<in> set ys. x \<le> z"
      using Cons.prems Cons by auto
    have "x \<notin> set ys" if "x \<noteq> y"
    proof
      assume "x \<in> set ys"
      with le have "y \<le> x" by blast
      with le(1) that show False by simp
    qed
    moreover have "distinct_adj xs = distinct xs"
      using Cons.IH Cons.prems by simp
    ultimately show ?thesis
      using Cons by auto
  qed
qed

lemma remdups_adj_sorted_distinct:
  "sorted xs \<Longrightarrow> (remdups_adj xs = xs) = distinct xs"
  using sorted_distinct_adj distinct_adj_altdef by metis

lemma is_distinct_tx_set_iff:
  "is_distinct_tx_set lib txs = distinct (map (hash_transaction lib) txs)"
  by (simp add: is_distinct_tx_set_def Let_def remdups_adj_sorted_distinct)


text \<open>
  Claim C4. When the stop callback never answers true, \<open>check_block\<close> returns the error of
  the first failing check in the order size limits, proof of work, timestamp, first
  transaction a coinbase, no other coinbase, \<open>check_transaction\<close> of each transaction in
  turn, distinct hashes, signature operations, merkle root; and success if none fails.
\<close>

theorem check_block_first_violation:
  assumes "True \<notin> set stops"
  shows "fst (check_block lib current_block stops) = first_violation lib current_block"
proof -
  let ?txs = "transactions current_block"
  let ?s2 = "tl (tl stops)"
  have s2: "True \<notin> set ?s2" using assms by (simp add: tl_no_stop)
  obtain e1 s3 where c1: "check_extra_coinbases (tl ?txs) ?s2 = (e1, s3)" by force
  have e1: "e1 = (if list_ex is_coinbase (tl ?txs) then extra_coinbases else success)"
    and s3: "True \<notin> set s3"
    using check_extra_coinbases_no_stop [OF s2, of "tl ?txs"] c1 by simp_all
  obtain e2 s4 where c2: "check_transactions lib ?txs s3 = (e2, s4)" by force
  have e2: "e2 = (case find (\<lambda>tx. check_transaction lib tx \<noteq> success) ?txs of
                    Some tx \<Rightarrow> check_transaction lib tx | None \<Rightarrow> success)"
    and s4: "True \<notin> set s4"
    using check_transactions_no_stop [OF s3, of lib ?txs] c2 by simp_all
  have found: "check_transaction lib tx \<noteq> success"
    if "find (\<lambda>tx. check_transaction lib tx \<noteq> success) ?txs = Some tx" for tx
    using that by (auto simp: find_Some_iff)
  show ?thesis
    unfolding check_block_def first_violation_def Let_def
    using assms s2 s3 s4 c1 c2 e1 e2 found
    by (auto simp: return_if_not_stopped tl_no_stop is_distinct_tx_set_iff
          max_block_size_def max_block_script_sig_operations_def split: option.splits)
qed

lemma example_target_ok: "set_compact example_numbers 0x1d00ffff = (True, push_bit 208 0xFFFF)"
  by (simp add: example_numbers_def example_set_compact_def Let_def)

lemma example_work_valid: "is_valid_proof_of_work example_numbers (low_header_hash h) 0x1d00ffff"
  unfolding is_valid_proof_of_work_def example_target_ok
  by (simp add: example_numbers_def low_header_hash_def)

lemma lone_coinbase_block_passes: "first_violation example_library lone_coinbase_block = success"
proof -
  have "numbers example_library = example_numbers" "hash_block_header example_library = low_header_hash"
    by (simp_all add: example_library_def)
  moreover have "bits (header lone_coinbase_block) = 0x1d00ffff"
    by (simp add: lone_coinbase_block_def candidate_header_def)
  ultimately have pow: "is_valid_proof_of_work (numbers example_library)
      (hash_block_header example_library (header lone_coinbase_block)) (bits (header lone_coinbase_block))"
    using example_work_valid by simp
  have sig: "legacy_sigops_count_list (transactions lone_coinbase_block) = 0"
    by (simp add: legacy_sigops_count_list_def legacy_sigops_count_def count_script_sigops_def
          lone_coinbase_block_def height_2_coinbase_def numbered_tx_def push_height_def mk_output_def
          special_def checksig_def checksigverify_def checkmultisig_def checkmultisigverify_def)
  show ?thesis
    unfolding first_violation_def Let_def
    using pow sig
    by (simp add: example_library_def lone_coinbase_block_def candidate_header_def
          height_2_coinbase_def numbered_tx_def is_valid_time_stamp_def is_coinbase_def)
qed

lemma empty_block_violation: "first_violation example_library empty_block = size_limits"
  by (simp add: first_violation_def empty_block_def)

theorem check_block_first_violation_witness:
  "fst (check_block example_library lone_coinbase_block [False, False]) = success
   \<and> fst (check_block example_library empty_block []) = size_limits"
proof -
  have "True \<notin> set [False, False]" "True \<notin> set []" by simp_all
  then show ?thesis
    using check_block_first_violation [of "[False, False]" example_library lone_coinbase_block]
          check_block_first_violation [of "[]" example_library empty_block]
          lone_coinbase_block_passes empty_block_violation
    by simp
qed

section \<open>Properties of the contextual checks\<close>


lemma begins_with_height_append:
  "begins_with_height lib h blk =
     (transactions blk \<noteq> [] \<and> inputs (hd (transactions blk)) \<noteq> []
      \<and> (\<exists>rest. save_script lib (in_script (hd (inputs (hd (transactions blk)))))
             = save_script lib [\<lparr> code = special, data = script_number_data lib h \<rparr>] @ rest))"
  unfolding begins_with_height_def Let_def
  by (metis append_eq_conv_conj append_take_drop_id)








section \<open>Properties of the connected checks\<close>

lemma size_t_difference:
  assumes "p \<le> h" "h < 2 ^ 64"
  shows "(h + 2 ^ 64 - p) mod 2 ^ 64 = h - (p::nat)"
proof -
  have "h + 2 ^ 64 - p = (h - p) + 2 ^ 64" using assms(1) by (rule Nat.diff_add_assoc2)
  moreover have "h - p < 2 ^ 64" using assms(2) by (rule less_imp_diff_less)
  ultimately show ?thesis by (simp only: mod_add_self2 mod_less)
qed

lemma connect_input_immature:
  assumes "immature_coinbase_spend lib v tx input_index"
  shows "\<exists>value_out sigops_out.
           connect_input lib ctx v index_in_parent tx input_index value_in total_sigops
             = Some (False, value_out, sigops_out)"
proof -
  let ?prevout = "previous_output (inputs tx ! input_index)"
  from assms obtain previous_tx previous_height
    where inr: "input_index < length (inputs tx)"
      and fetch: "fetch_transaction lib v (hash ?prevout) = Some (Some (previous_tx, previous_height))"
      and cb: "is_coinbase previous_tx"
      and out: "unat (index ?prevout) < length (outputs previous_tx)"
      and le: "previous_height \<le> height v" "height v < 2 ^ 64"
      and young: "height v - previous_height < 100"
    by (auto simp: immature_coinbase_spend_def split: option.splits)
  have diff: "(height v + 2 ^ 64 - previous_height) mod 2 ^ 64 < coinbase_maturity"
    unfolding size_t_difference [OF le] coinbase_maturity_def by (rule young)
  show ?thesis
    unfolding connect_input_def Let_def
    using inr fetch cb out diff
    by (cases "script_hash_signature_operations_count lib
                 (out_script (outputs previous_tx ! unat (index ?prevout)))
                 (in_script (inputs tx ! input_index))") simp_all
qed

lemma validate_input_list_immature:
  assumes "immature_coinbase_spend lib v tx j" and "j \<in> set indexes"
    and "validate_input_list lib ctx v index_in_parent tx indexes value_in total_sigops = Some r"
  shows "\<not> fst r"
  using assms(2,3)
proof (induction indexes arbitrary: value_in total_sigops)
  case Nil
  then show ?case by simp
next
  case (Cons i rest)
  show ?case
  proof (cases "i = j")
    case True
    obtain value_out sigops_out where
      "connect_input lib ctx v index_in_parent tx j value_in total_sigops
         = Some (False, value_out, sigops_out)"
      using connect_input_immature [OF assms(1)] by blast
    with Cons.prems True show ?thesis by auto
  next
    case False
    with Cons.prems have j: "j \<in> set rest" by simp
    from Cons.prems(2) show ?thesis
      using Cons.IH [OF j] by (auto split: option.splits if_splits)
  qed
qed

lemma validate_inputs_immature:
  assumes "immature_coinbase_spend lib v tx j"
    and "validate_inputs lib ctx v tx index_in_parent value_in total_sigops = Some r"
  shows "\<not> fst r"
proof -
  have "j \<in> set [0..<length (inputs tx)]"
    using assms(1) by (simp add: immature_coinbase_spend_def)
  then show ?thesis
    using validate_input_list_immature [OF assms(1)] assms(2)
    unfolding validate_inputs_def by blast
qed


lemma bip30_never_active: "is_active ctx current_block bip30_enabled = False"
  by (simp add: is_active_def Let_def)

lemma connect_transaction_failure:
  "connect_transaction lib ctx v k tx state = Some (Inl (e, rest)) \<Longrightarrow> e \<noteq> success"
  by (auto simp: connect_transaction_def Let_def split: prod.splits if_splits option.splits)

lemma connect_transactions_failure:
  "connect_transactions lib ctx v k txs state = Some (Inl (e, rest)) \<Longrightarrow> e \<noteq> success"
proof (induction txs arbitrary: k state)
  case Nil
  then show ?case by simp
next
  case (Cons tx txs)
  then show ?case
    by (auto split: option.splits sum.splits dest: connect_transaction_failure)
qed

lemma connect_transaction_immature:
  assumes "immature_coinbase_spend lib v tx j" and "\<not> is_coinbase tx"
  shows "connect_transaction lib ctx v k tx state \<noteq> Some (Inr state')"
proof
  assume run: "connect_transaction lib ctx v k tx state = Some (Inr state')"
  obtain fees total_sigops stops where state: "state = (fees, total_sigops, stops)"
    by (cases state)
  from run obtain r where
    r: "validate_inputs lib ctx v tx k 0 (total_sigops + legacy_sigops_count tx) = Some r" and "fst r"
    unfolding connect_transaction_def state Let_def using assms(2)
    by (auto split: if_splits option.splits prod.splits)
  with validate_inputs_immature [OF assms(1) r] show False by simp
qed

lemma connect_transactions_immature:
  assumes "k < length txs" and "\<not> is_coinbase (txs ! k)"
    and "immature_coinbase_spend lib v (txs ! k) j"
  shows "connect_transactions lib ctx v i txs state \<noteq> Some (Inr state')"
  using assms
proof (induction txs arbitrary: i k state)
  case Nil
  then show ?case by simp
next
  case (Cons tx txs)
  show ?case
  proof (cases k)
    case 0
    with Cons.prems have "connect_transaction lib ctx v i tx state \<noteq> Some (Inr s)" for s
      using connect_transaction_immature by simp
    then show ?thesis by (auto split: option.splits sum.splits)
  next
    case (Suc k')
    with Cons.prems have "connect_transactions lib ctx v (Suc i) txs s \<noteq> Some (Inr state')" for s
      using Cons.IH [of k'] by simp
    then show ?thesis by (auto split: option.splits sum.splits)
  qed
qed

lemma connect_block_immature:
  assumes "k < length (transactions current_block)"
    and "\<not> is_coinbase (transactions current_block ! k)"
    and "immature_coinbase_spend lib v (transactions current_block ! k) j"
    and "connect_block lib ctx v current_block stops = Some (r, rest)"
  shows "r \<noteq> success"
proof -
  have "connect_transactions lib ctx v 0 (transactions current_block) (0, 0, stops) \<noteq> Some (Inr s)" for s
    using connect_transactions_immature [OF assms(1-3)] by simp
  then show ?thesis
    using assms(4) unfolding connect_block_def Let_def bip30_never_active
    by (auto split: option.splits sum.splits dest: connect_transactions_failure)
qed

lemma connect_transactions_append:
  "connect_transactions lib ctx v i (xs @ ys) state =
     (case connect_transactions lib ctx v i xs state of
        None \<Rightarrow> None
      | Some (Inl failure) \<Rightarrow> Some (Inl failure)
      | Some (Inr state') \<Rightarrow> connect_transactions lib ctx v (i + length xs) ys state')"
  by (induction xs arbitrary: i state) (auto split: option.splits sum.splits)

lemma connect_block_immature_code:
  assumes k: "k < length (transactions current_block)"
    and nc: "\<not> is_coinbase (transactions current_block ! k)"
    and im: "immature_coinbase_spend lib v (transactions current_block ! k) j"
    and before: "connect_transactions lib ctx v 0 (take k (transactions current_block)) (0, 0, stops)
                   = Some (Inr (fees, total_sigops, stops'))"
    and sigops: "total_sigops + legacy_sigops_count (transactions current_block ! k)
                   \<le> max_block_script_sig_operations"
    and running: "\<not> stopped stops'" "\<not> stopped (tl stops')"
    and defined: "validate_inputs lib ctx v (transactions current_block ! k) k 0
                    (total_sigops + legacy_sigops_count (transactions current_block ! k)) \<noteq> None"
  shows "connect_block lib ctx v current_block stops = Some (validate_inputs_failed, tl (tl stops'))"
proof -
  let ?txs = "transactions current_block"
  let ?tx = "?txs ! k"
  from defined obtain r where
    r: "validate_inputs lib ctx v ?tx k 0 (total_sigops + legacy_sigops_count ?tx) = Some r"
    by auto
  have "\<not> fst r" by (rule validate_inputs_immature [OF im r])
  then have body: "connect_transaction lib ctx v k ?tx (fees, total_sigops, stops')
      = Some (Inl (validate_inputs_failed, tl (tl stops')))"
    unfolding connect_transaction_def Let_def
    using nc sigops running r by (auto split: prod.splits)
  have split: "?txs = take k ?txs @ ?tx # drop (Suc k) ?txs"
    using k by (simp add: id_take_nth_drop)
  have "connect_transactions lib ctx v 0 ?txs (0, 0, stops)
      = Some (Inl (validate_inputs_failed, tl (tl stops')))"
    by (subst split) (use k before body in \<open>simp add: connect_transactions_append min_def\<close>)
  then show ?thesis
    unfolding connect_block_def Let_def bip30_never_active by simp
qed

text \<open>
  Claim C7. Let input \<open>j\<close> of transaction \<open>k\<close> of the block, not itself a coinbase, spend a
  coinbase of height \<open>p\<close> with \<open>height - p < 100\<close>. Then \<open>connect_input\<close> rejects that
  input, \<open>connect_block\<close> never returns success, and it returns
  \<open>validate_inputs_failed\<close> whenever it gets to the inputs of that transaction: the
  transactions before it connect, its legacy signature operations keep the total within the
  limit, no stop is requested at the two consultations before \<open>validate_inputs\<close>, and
  the reads of \<open>validate_inputs\<close> stay in range.
\<close>

theorem immature_coinbase_spend_rejected:
  assumes "k < length (transactions current_block)"
    and "\<not> is_coinbase (transactions current_block ! k)"
    and "immature_coinbase_spend lib v (transactions current_block ! k) j"
  shows "(\<exists>value_out sigops_out.
            connect_input lib ctx v k (transactions current_block ! k) j value_in sigops_in
              = Some (False, value_out, sigops_out))
       \<and> (\<forall>r rest. connect_block lib ctx v current_block stops = Some (r, rest) \<longrightarrow> r \<noteq> success)
       \<and> (connect_transactions lib ctx v 0 (take k (transactions current_block)) (0, 0, stops)
              = Some (Inr (fees, total_sigops, stops'))
            \<and> total_sigops + legacy_sigops_count (transactions current_block ! k)
                 \<le> max_block_script_sig_operations
            \<and> \<not> stopped stops' \<and> \<not> stopped (tl stops')
            \<and> validate_inputs lib ctx v (transactions current_block ! k) k 0
                 (total_sigops + legacy_sigops_count (transactions current_block ! k)) \<noteq> None
          \<longrightarrow> connect_block lib ctx v current_block stops
                = Some (validate_inputs_failed, tl (tl stops')))"
  using connect_input_immature [OF assms(3)] connect_block_immature [OF assms]
        connect_block_immature_code [OF assms]
  by blast


lemma immature_view_fetch:
  "fetch_transaction example_library immature_view
     (hash (previous_output (inputs immature_spend_tx ! 0)))
   = Some (Some (height_1_coinbase, 1))"
  by code_simp

lemma immature_block_facts:
  "1 < length (transactions immature_block)"
  "\<not> is_coinbase (transactions immature_block ! 1)"
  "transactions immature_block ! 1 = immature_spend_tx"
  "is_coinbase height_1_coinbase"
  "unat (index (previous_output (inputs immature_spend_tx ! 0))) < length (outputs height_1_coinbase)"
  "0 < length (inputs immature_spend_tx)"
  by code_simp+

lemma immature_view_spend:
  "immature_coinbase_spend example_library immature_view (transactions immature_block ! 1) 0"
  unfolding immature_coinbase_spend_def immature_block_facts(3) immature_view_fetch
  using immature_block_facts(4-6) by (simp add: immature_view_def)

lemma immature_block_before:
  "connect_transactions example_library bip34_context immature_view 0
     (take 1 (transactions immature_block)) (0, 0, [])
   = Some (Inr (0, 0, []))"
proof -
  have "take 1 (transactions immature_block) = [height_2_coinbase]"
    by (simp add: immature_block_def)
  moreover have "is_coinbase height_2_coinbase" "legacy_sigops_count height_2_coinbase = 0"
    by code_simp+
  ultimately show ?thesis
    by (simp add: connect_transaction_def stopped_def max_block_script_sig_operations_def
          max_block_size_def)
qed

lemma immature_block_sigops:
  "0 + legacy_sigops_count (transactions immature_block ! 1) \<le> max_block_script_sig_operations"
proof -
  have "legacy_sigops_count immature_spend_tx = 0" by code_simp
  then show ?thesis unfolding immature_block_facts(3) by simp
qed

theorem immature_coinbase_spend_rejected_witness:
  "connect_block example_library bip34_context immature_view immature_block []
     = Some (validate_inputs_failed, [])"
proof -
  note rejected = immature_coinbase_spend_rejected
    [where ctx = bip34_context and value_in = 0
       and sigops_in = "0 + legacy_sigops_count immature_spend_tx"
       and stops = "[]" and fees = 0 and total_sigops = 0 and stops' = "[]",
     OF immature_block_facts(1,2) immature_view_spend]
  from rejected obtain value_out sigops_out where
    input: "connect_input example_library bip34_context immature_view 1 immature_spend_tx 0 0
              (0 + legacy_sigops_count immature_spend_tx) = Some (False, value_out, sigops_out)"
    unfolding immature_block_facts(3) by blast
  have "[0..<length (inputs immature_spend_tx)] = [0]"
    by (simp add: immature_spend_tx_def numbered_tx_def)
  then have defined: "validate_inputs example_library bip34_context immature_view
      (transactions immature_block ! 1) 1 0 (0 + legacy_sigops_count (transactions immature_block ! 1))
      \<noteq> None"
    unfolding immature_block_facts(3) validate_inputs_def using input by simp
  have "\<not> stopped []" by (simp add: stopped_def)
  then show ?thesis
    using rejected immature_block_before immature_block_sigops defined by simp
qed

section \<open>Cancellation\<close>

lemma honoured_iff:
  "honoured stops result =
     (\<exists>consumed. stops = consumed @ snd result
        \<and> True \<notin> set (butlast consumed)
        \<and> (True \<in> set consumed \<longrightarrow> fst result = service_stopped))"
proof
  assume "honoured stops result"
  then show "\<exists>consumed. stops = consumed @ snd result \<and> True \<notin> set (butlast consumed)
        \<and> (True \<in> set consumed \<longrightarrow> fst result = service_stopped)"
    unfolding honoured_def Let_def
    by (intro exI [of _ "take (length stops - length (snd result)) stops"]) (auto split: if_splits)
next
  assume "\<exists>consumed. stops = consumed @ snd result \<and> True \<notin> set (butlast consumed)
        \<and> (True \<in> set consumed \<longrightarrow> fst result = service_stopped)"
  then obtain consumed where c: "stops = consumed @ snd result" "True \<notin> set (butlast consumed)"
      "True \<in> set consumed \<longrightarrow> fst result = service_stopped" by blast
  then have "take (length stops - length (snd result)) stops = consumed" by simp
  with c show "honoured stops result"
    unfolding honoured_def Let_def by auto
qed

lemma honoured_refl: "honoured stops (e, stops)"
  unfolding honoured_iff by (rule exI [of _ "[]"]) simp

lemma honoured_stop: "stopped stops \<Longrightarrow> honoured stops (service_stopped, tl stops)"
  unfolding honoured_iff
  by (cases stops) (auto simp: stopped_def intro!: exI [of _ "[True]"])

lemma honoured_step:
  assumes "\<not> stopped stops" and "honoured (tl stops) result"
  shows "honoured stops result"
proof (cases stops)
  case Nil
  with assms(2) show ?thesis by simp
next
  case (Cons answer later)
  with assms(1) have answer: "answer = False" by (simp add: stopped_def)
  from assms(2) Cons obtain consumed where
    c: "later = consumed @ snd result" "True \<notin> set (butlast consumed)"
       "True \<in> set consumed \<longrightarrow> fst result = service_stopped"
    unfolding honoured_iff by auto
  show ?thesis
    unfolding honoured_iff
    by (rule exI [of _ "False # consumed"]) (use c Cons answer in \<open>auto simp: butlast.simps\<close>)
qed






lemma honoured_check_spent_duplicates: "honoured stops (check_spent_duplicates lib v txs stops)"
  by (induction txs arbitrary: stops)
     (auto simp: honoured_refl honoured_stop intro: honoured_step)




















end
